theory Spec2Isabelle
  imports Main "HOL-Library.AList"
begin

section \<open>Python values and the operations the client applies to them\<close>

text \<open>
  The notebook defines one class, \<open>CustomModelClient\<close>, whose five methods read a
  duck-typed response object. Nothing in the class checks the shape of what it is
  handed, so the values are modelled dynamically:
  \<^item> \<open>PyObj\<close> is a plain instance with data attributes (attribute access only);
  \<^item> \<open>PyModel\<close> is a pydantic-style instance, as litellm returns them: attribute access,
    and iteration yields its (field, value) pairs;
  \<^item> \<open>PyDict\<close> is a dict as its entries in insertion order, keys distinct.
  Equal terms denote the same object; floats and booleans are not part of the model.
\<close>

datatype pyval =
    PyNone
  | PyInt int
  | PyStr string
  | PyList "pyval list"
  | PyTuple "pyval list"
  | PyDict "(pyval \<times> pyval) list"
  | PyObj "(string \<times> pyval) list"
  | PyModel "(string \<times> pyval) list"

text \<open>
  The exceptions the methods can raise, as values. \<open>ProviderError\<close> stands for whatever
  the provider call raises (network, authentication, malformed reply).
\<close>

datatype error = AttributeError | KeyError | TypeError | ValueError | ProviderError string

text \<open>
  \<open>x.name\<close> for the data attributes the source reads (\<open>choices\<close>, \<open>message\<close>,
  \<open>content\<close>, \<open>usage\<close>): none of the built-in types has one of them, so every value
  that is not an instance raises AttributeError.
\<close>

fun getattr :: "pyval \<Rightarrow> string \<Rightarrow> error + pyval" where
  "getattr (PyObj attrs) name =
     (case map_of attrs name of None \<Rightarrow> Inl AttributeError | Some v \<Rightarrow> Inr v)"
| "getattr (PyModel fields) name =
     (case map_of fields name of None \<Rightarrow> Inl AttributeError | Some v \<Rightarrow> Inr v)"
| "getattr PyNone name = Inl AttributeError"
| "getattr (PyInt n) name = Inl AttributeError"
| "getattr (PyStr s) name = Inl AttributeError"
| "getattr (PyList xs) name = Inl AttributeError"
| "getattr (PyTuple xs) name = Inl AttributeError"
| "getattr (PyDict kvs) name = Inl AttributeError"

text \<open>
  What \<open>for x in v\<close> visits: the elements of a list or tuple, the characters of a string,
  the keys of a dict, the (field, value) pairs of a pydantic model; None, an int and a
  plain instance are not iterable (TypeError).
\<close>

fun py_iter :: "pyval \<Rightarrow> error + pyval list" where
  "py_iter (PyList xs) = Inr xs"
| "py_iter (PyTuple xs) = Inr xs"
| "py_iter (PyStr s) = Inr (map (\<lambda>c. PyStr [c]) s)"
| "py_iter (PyDict kvs) = Inr (map fst kvs)"
| "py_iter (PyModel fields) = Inr (map (\<lambda>(k, v). PyTuple [PyStr k, v]) fields)"
| "py_iter PyNone = Inl TypeError"
| "py_iter (PyInt n) = Inl TypeError"
| "py_iter (PyObj attrs) = Inl TypeError"

text \<open>
  A list comprehension \<open>[f(x) for x in xs]\<close>: the elements are evaluated in order and
  the first exception ends the evaluation.
\<close>

fun comprehension :: "(pyval \<Rightarrow> error + 'a) \<Rightarrow> pyval list \<Rightarrow> error + 'a list" where
  "comprehension f [] = Inr []"
| "comprehension f (x # xs) =
     (case f x of
        Inl e \<Rightarrow> Inl e
      | Inr y \<Rightarrow> (case comprehension f xs of Inl e \<Rightarrow> Inl e | Inr ys \<Rightarrow> Inr (y # ys)))"

text \<open>
  Which values can be dict keys: lists, dicts and pydantic models are unhashable, a tuple
  is hashable when its elements are.
\<close>

fun hashable :: "pyval \<Rightarrow> bool" where
  "hashable PyNone = True"
| "hashable (PyInt n) = True"
| "hashable (PyStr s) = True"
| "hashable (PyList xs) = False"
| "hashable (PyTuple xs) = list_all hashable xs"
| "hashable (PyDict kvs) = False"
| "hashable (PyObj attrs) = True"
| "hashable (PyModel fields) = False"

text \<open>
  \<open>dict(v)\<close>: a dict is copied; any other value is iterated and every element must itself
  be a sequence of exactly two items, a hashable key and a value. A later pair with the
  same key replaces the value and keeps the key's position. (An instance that has an
  attribute named \<open>keys\<close> is not considered.)
\<close>

fun dict_of_pairs :: "pyval list \<Rightarrow> (pyval \<times> pyval) list \<Rightarrow> error + (pyval \<times> pyval) list" where
  "dict_of_pairs [] d = Inr d"
| "dict_of_pairs (e # es) d =
     (case py_iter e of
        Inl err \<Rightarrow> Inl TypeError
      | Inr items \<Rightarrow>
          (case items of
             [k, v] \<Rightarrow> if hashable k then dict_of_pairs es (AList.update k v d) else Inl TypeError
           | _ \<Rightarrow> Inl ValueError))"

definition py_dict :: "pyval \<Rightarrow> error + (pyval \<times> pyval) list" where
  "py_dict v =
     (case v of
        PyDict kvs \<Rightarrow> Inr kvs
      | _ \<Rightarrow> (case py_iter v of Inl e \<Rightarrow> Inl e | Inr items \<Rightarrow> dict_of_pairs items []))"

text \<open>\<open>d.get(k, default)\<close> on a dict with string keys.\<close>

definition dict_get :: "(string \<rightharpoonup> pyval) \<Rightarrow> string \<Rightarrow> pyval \<Rightarrow> pyval" where
  "dict_get d k dflt = (case d k of None \<Rightarrow> dflt | Some v \<Rightarrow> v)"

section \<open>The provider boundary\<close>

text \<open>
  \<open>completion\<close> is litellm's function, imported by the notebook; its code is not part of
  the notebook, so the provider is a parameter: given the model, the messages and the
  state of the outside world it answers with a response or raises, and leaves a new
  state. The world also records every call that reached the provider, in order.
\<close>

record 'w world =
  calls :: "(pyval \<times> pyval) list"
  env :: 'w

type_synonym 'w provider = "pyval \<Rightarrow> pyval \<Rightarrow> 'w \<Rightarrow> (error + pyval) \<times> 'w"

definition completion ::
  "'w provider \<Rightarrow> pyval \<Rightarrow> pyval \<Rightarrow> 'w world \<Rightarrow> (error + pyval) \<times> 'w world" where
  "completion p mdl messages w =
     (fst (p mdl messages (env w)),
      \<lparr>calls = calls w @ [(mdl, messages)], env = snd (p mdl messages (env w))\<rparr>)"

section \<open>CustomModelClient\<close>

text \<open>The instance holds one attribute, \<open>self.model\<close>, assigned by the constructor.\<close>

record CustomModelClient =
  model :: pyval

text \<open>
  \<open>__init__(self, config)\<close>: \<open>self.model = config.get("model", "gemini/gemini-pro")\<close>.
  Written in the state-passing style of \<open>create\<close>, so that what construction does at
  the provider boundary is part of the model.
\<close>

definition init :: "(string \<rightharpoonup> pyval) \<Rightarrow> 'w world \<Rightarrow> CustomModelClient \<times> 'w world" where
  "init config w = (\<lparr>model = dict_get config ''model'' (PyStr ''gemini/gemini-pro'')\<rparr>, w)"

text \<open>
  \<open>create(self, params)\<close>: the arguments of the call are evaluated first, so a missing
  \<open>"messages"\<close> key raises KeyError before \<open>completion\<close> is entered; otherwise the
  response of the one call (or its exception) is the result.
\<close>

definition create ::
  "'w provider \<Rightarrow> CustomModelClient \<Rightarrow> (string \<rightharpoonup> pyval) \<Rightarrow> 'w world
     \<Rightarrow> (error + pyval) \<times> 'w world" where
  "create p self params w =
     (case params ''messages'' of
        None \<Rightarrow> (Inl KeyError, w)
      | Some messages \<Rightarrow> completion p (model self) messages w)"

text \<open>
  \<open>message_retrieval(self, response)\<close>:
  \<open>choices = response.choices; return [choice.message.content for choice in choices]\<close>.
\<close>

definition choice_content :: "pyval \<Rightarrow> error + pyval" where
  "choice_content choice =
     (case getattr choice ''message'' of Inl e \<Rightarrow> Inl e | Inr m \<Rightarrow> getattr m ''content'')"

definition message_retrieval :: "CustomModelClient \<Rightarrow> pyval \<Rightarrow> error + pyval list" where
  "message_retrieval self response =
     (case getattr response ''choices'' of
        Inl e \<Rightarrow> Inl e
      | Inr choices \<Rightarrow>
          (case py_iter choices of
             Inl e \<Rightarrow> Inl e
           | Inr items \<Rightarrow> comprehension choice_content items))"

text \<open>\<open>cost(self, response)\<close>: \<open>return 0\<close>.\<close>

definition cost :: "CustomModelClient \<Rightarrow> pyval \<Rightarrow> error + int" where
  "cost self response = Inr 0"

text \<open>\<open>get_usage(response)\<close>, a static method: \<open>return dict(response.usage)\<close>.\<close>

definition get_usage :: "pyval \<Rightarrow> error + (pyval \<times> pyval) list" where
  "get_usage response =
     (case getattr response ''usage'' of Inl e \<Rightarrow> Inl e | Inr u \<Rightarrow> py_dict u)"

text \<open>The five keys the class's docstring requires of the usage dict.\<close>

definition RESPONSE_USAGE_KEYS :: "pyval list" where
  "RESPONSE_USAGE_KEYS =
     [PyStr ''prompt_tokens'', PyStr ''completion_tokens'', PyStr ''total_tokens'',
      PyStr ''cost'', PyStr ''model'']"

section \<open>Facts about the operations\<close>

lemma getattr_error: "getattr v name = Inl e \<Longrightarrow> e = AttributeError"
  by (cases v) (auto split: option.splits)

lemma comprehension_Inr_iff:
  "comprehension f xs = Inr ys \<longleftrightarrow> list_all2 (\<lambda>x y. f x = Inr y) xs ys"
proof (induction xs arbitrary: ys)
  case Nil
  then show ?case by auto
next
  case (Cons x xs)
  show ?case
    by (cases ys) (auto split: sum.splits simp: Cons.IH[symmetric])
qed

lemma comprehension_Inl:
  "comprehension f xs = Inl e \<Longrightarrow> \<exists>x \<in> set xs. f x = Inl e"
  by (induction xs) (auto split: sum.splits)

lemma comprehension_fails:
  "x \<in> set xs \<Longrightarrow> f x = Inl e \<Longrightarrow> \<exists>e'. comprehension f xs = Inl e'"
  by (induction xs) (auto split: sum.splits)

lemma choice_content_error: "choice_content c = Inl e \<Longrightarrow> e = AttributeError"
  by (auto simp: choice_content_def split: sum.splits dest: getattr_error)

lemma get_usage_copies_dict:
  "getattr response ''usage'' = Inr (PyDict kvs) \<Longrightarrow> get_usage response = Inr kvs"
  by (simp add: get_usage_def py_dict_def)

section \<open>Extracting the message texts\<close>

text \<open>
  Claim C1. For a response whose \<open>choices\<close> is a list in which every choice has a
  \<open>message\<close> with a \<open>content\<close> attribute, \<open>message_retrieval\<close> returns a list of the
  same length as \<open>choices\<close> whose i-th element is the content of the i-th choice's
  message, whatever that content is (None included): nothing is dropped or reordered.
\<close>

theorem message_retrieval_positional:
  assumes "getattr response ''choices'' = Inr (PyList cs)"
    and "\<forall>c \<in> set cs. \<exists>m v. getattr c ''message'' = Inr m \<and> getattr m ''content'' = Inr v"
  shows "\<exists>out. message_retrieval self response = Inr out
           \<and> length out = length cs
           \<and> (\<forall>i < length cs. \<exists>m. getattr (cs ! i) ''message'' = Inr m
                                   \<and> getattr m ''content'' = Inr (out ! i))"
proof -
  have ok: "\<forall>c \<in> set cs. \<exists>v. choice_content c = Inr v"
    using assms(2) by (fastforce simp: choice_content_def)
  have "\<exists>out. comprehension choice_content cs = Inr out"
  proof (cases "comprehension choice_content cs")
    case (Inl e)
    then obtain c where "c \<in> set cs" "choice_content c = Inl e"
      using comprehension_Inl by blast
    with ok show ?thesis by auto
  next
    case (Inr out)
    then show ?thesis by blast
  qed
  then obtain out where out: "comprehension choice_content cs = Inr out" by blast
  then have rel: "list_all2 (\<lambda>c v. choice_content c = Inr v) cs out"
    by (simp add: comprehension_Inr_iff)
  have len: "length out = length cs"
    using rel by (simp add: list_all2_lengthD)
  have pos: "\<exists>m. getattr (cs ! i) ''message'' = Inr m \<and> getattr m ''content'' = Inr (out ! i)"
    if "i < length cs" for i
  proof -
    have "choice_content (cs ! i) = Inr (out ! i)"
      using list_all2_nthD [OF rel that] .
    then show ?thesis
      by (auto simp: choice_content_def split: sum.splits)
  qed
  have "message_retrieval self response = Inr out"
    using assms(1) out by (simp add: message_retrieval_def)
  with len pos show ?thesis by blast
qed

text \<open>Two choices, the second with content None: both are returned, in order.\<close>

theorem message_retrieval_positional_witness:
  "\<exists>out. message_retrieval \<lparr>model = PyStr ''gemini/gemini-pro''\<rparr>
      (PyModel [(''choices'',
          PyList [PyModel [(''message'', PyModel [(''content'', PyStr ''hello'')])],
                  PyModel [(''message'', PyModel [(''content'', PyNone)])]]),
        (''model'', PyStr ''gemini-pro'')]) = Inr out
    \<and> length out = 2
    \<and> out ! 0 = PyStr ''hello'' \<and> out ! 1 = PyNone"
  using message_retrieval_positional
    [of "PyModel [(''choices'',
          PyList [PyModel [(''message'', PyModel [(''content'', PyStr ''hello'')])],
                  PyModel [(''message'', PyModel [(''content'', PyNone)])]]),
        (''model'', PyStr ''gemini-pro'')]"
        "[PyModel [(''message'', PyModel [(''content'', PyStr ''hello'')])],
          PyModel [(''message'', PyModel [(''content'', PyNone)])]]"
        "\<lparr>model = PyStr ''gemini/gemini-pro''\<rparr>"]
  by (auto simp: less_Suc_eq numeral_2_eq_2)

text \<open>
  Claim C3 says that a response with an empty \<open>choices\<close> sequence makes the extraction
  fail. The method has no check of its own: over an empty list the comprehension runs
  zero times and the empty list is returned.
\<close>

theorem message_retrieval_empty_choices_counterexample:
  "getattr (PyModel [(''choices'', PyList []), (''model'', PyStr ''gemini-pro'')]) ''choices''
      = Inr (PyList [])
   \<and> message_retrieval \<lparr>model = PyStr ''gemini/gemini-pro''\<rparr>
        (PyModel [(''choices'', PyList []), (''model'', PyStr ''gemini-pro'')]) = Inr []"
  by (simp add: message_retrieval_def)

text \<open>
  Claim C3, as the code has it. When \<open>choices\<close> is a list and some choice has no
  \<open>message\<close> attribute, \<open>message_retrieval\<close> raises AttributeError and returns no
  list at all, not a partial one; when \<open>choices\<close> is the empty list it returns the
  empty list without an error.
\<close>

theorem message_retrieval_contract_violation:
  assumes "getattr response ''choices'' = Inr (PyList cs)"
  shows "(\<forall>c e. c \<in> set cs \<and> getattr c ''message'' = Inl e
            \<longrightarrow> message_retrieval self response = Inl AttributeError)
       \<and> (cs = [] \<longrightarrow> message_retrieval self response = Inr [])"
proof (intro conjI allI impI)
  fix c e
  assume "c \<in> set cs \<and> getattr c ''message'' = Inl e"
  then have "c \<in> set cs" and "choice_content c = Inl e"
    by (simp_all add: choice_content_def)
  then obtain e' where e': "comprehension choice_content cs = Inl e'"
    using comprehension_fails by blast
  then obtain c' where "choice_content c' = Inl e'"
    using comprehension_Inl by blast
  then have "e' = AttributeError"
    by (rule choice_content_error)
  with e' show "message_retrieval self response = Inl AttributeError"
    using assms by (simp add: message_retrieval_def)
next
  assume "cs = []"
  then show "message_retrieval self response = Inr []"
    using assms by (simp add: message_retrieval_def)
qed

text \<open>The first choice is well-formed, the second has no message: AttributeError.\<close>

theorem message_retrieval_contract_violation_witness:
  "message_retrieval \<lparr>model = PyStr ''gemini/gemini-pro''\<rparr>
      (PyModel [(''choices'',
         PyList [PyModel [(''message'', PyModel [(''content'', PyStr ''hello'')])],
                 PyModel [(''index'', PyInt 1)]])]) = Inl AttributeError"
  using message_retrieval_contract_violation
    [of "PyModel [(''choices'',
         PyList [PyModel [(''message'', PyModel [(''content'', PyStr ''hello'')])],
                 PyModel [(''index'', PyInt 1)]])]"
        "[PyModel [(''message'', PyModel [(''content'', PyStr ''hello'')])],
          PyModel [(''index'', PyInt 1)]]"
        "\<lparr>model = PyStr ''gemini/gemini-pro''\<rparr>"]
  by auto

section \<open>The usage summary\<close>

text \<open>
  Claim C2 at a response as litellm returns it, whose usage reports the three token
  counters and nothing else: \<open>get_usage\<close> returns exactly those three entries, so the
  keys \<open>cost\<close> and \<open>model\<close> that the class's docstring requires are absent, not 0;
  and for a response with no \<open>usage\<close> attribute it raises AttributeError instead of
  returning a mapping.
\<close>

theorem get_usage_missing_keys:
  "get_usage (PyModel [(''choices'', PyList [PyModel [(''message'', PyModel [(''content'', PyStr ''hello'')])]]),
                       (''model'', PyStr ''gemini-pro''),
                       (''usage'', PyModel [(''prompt_tokens'', PyInt 5),
                                            (''completion_tokens'', PyInt 7),
                                            (''total_tokens'', PyInt 12)])])
     = Inr [(PyStr ''prompt_tokens'', PyInt 5), (PyStr ''completion_tokens'', PyInt 7),
            (PyStr ''total_tokens'', PyInt 12)]
   \<and> filter (\<lambda>k. map_of [(PyStr ''prompt_tokens'', PyInt 5), (PyStr ''completion_tokens'', PyInt 7),
                              (PyStr ''total_tokens'', PyInt 12)] k = None) RESPONSE_USAGE_KEYS
       = [PyStr ''cost'', PyStr ''model'']
   \<and> get_usage (PyModel [(''choices'', PyList []), (''model'', PyStr ''gemini-pro'')])
       = Inl AttributeError"
  by (simp add: get_usage_def py_dict_def RESPONSE_USAGE_KEYS_def)

section \<open>Construction\<close>

text \<open>
  Claim C5. Constructing the client binds \<open>self.model\<close> to the configuration's
  \<open>"model"\<close> entry when the key is present and to \<open>"gemini/gemini-pro"\<close> when it is
  absent, and leaves the world as it was: no call reaches the provider.
\<close>

theorem init_binds_model:
  "(\<forall>v. config ''model'' = Some v \<longrightarrow> model (fst (init config w)) = v)
   \<and> (config ''model'' = None \<longrightarrow> model (fst (init config w)) = PyStr ''gemini/gemini-pro'')
   \<and> snd (init config w) = w"
  by (simp add: init_def dict_get_def)

text \<open>The notebook's configuration entry with another model, and one without a model.\<close>

theorem init_binds_model_witness:
  "model (fst (init [''model'' \<mapsto> PyStr ''gemini/gemini-1.5'',
                     ''model_client_cls'' \<mapsto> PyStr ''CustomModelClient'']
                    \<lparr>calls = [], env = ()\<rparr>)) = PyStr ''gemini/gemini-1.5''
   \<and> model (fst (init [''model_client_cls'' \<mapsto> PyStr ''CustomModelClient'']
                       \<lparr>calls = [], env = ()\<rparr>)) = PyStr ''gemini/gemini-pro''
   \<and> calls (snd (init [''model_client_cls'' \<mapsto> PyStr ''CustomModelClient'']
                       \<lparr>calls = [], env = ()\<rparr>)) = []"
  using init_binds_model
      [of "[''model'' \<mapsto> PyStr ''gemini/gemini-1.5'',
            ''model_client_cls'' \<mapsto> PyStr ''CustomModelClient'']" "\<lparr>calls = [], env = ()\<rparr>"]
    init_binds_model
      [of "[''model_client_cls'' \<mapsto> PyStr ''CustomModelClient'']" "\<lparr>calls = [], env = ()\<rparr>"]
  by simp

text \<open>
  Claim C6 says that provider-specific extra fields of the configuration are stored on
  the client. The constructor assigns \<open>self.model\<close> only: two configurations that
  differ in \<open>temperature\<close> construct the same instance, which holds the model and
  nothing else.
\<close>

theorem init_drops_extras_counterexample:
  "fst (init [''model'' \<mapsto> PyStr ''gemini/gemini-pro'', ''temperature'' \<mapsto> PyInt 7]
             \<lparr>calls = [], env = ()\<rparr>)
     = \<lparr>model = PyStr ''gemini/gemini-pro''\<rparr>
   \<and> fst (init [''model'' \<mapsto> PyStr ''gemini/gemini-pro'', ''temperature'' \<mapsto> PyInt 0]
               \<lparr>calls = [], env = ()\<rparr>)
     = \<lparr>model = PyStr ''gemini/gemini-pro''\<rparr>"
  by (simp add: init_def dict_get_def)

text \<open>
  Claim C6, as the code has it. The constructed client depends on the configuration's
  \<open>"model"\<close> entry only: configurations that agree on it construct equal clients,
  whatever other fields they carry.
\<close>

theorem init_depends_on_model_only:
  assumes "config ''model'' = config' ''model''"
  shows "fst (init config w) = fst (init config' w')"
  using assms by (simp add: init_def dict_get_def)

text \<open>A configuration with an extra \<open>api_base\<close> field and the same one without it.\<close>

theorem init_depends_on_model_only_witness:
  "fst (init [''model'' \<mapsto> PyStr ''gemini/gemini-pro'', ''api_base'' \<mapsto> PyStr ''http://localhost'']
             \<lparr>calls = [], env = ()\<rparr>)
   = fst (init [''model'' \<mapsto> PyStr ''gemini/gemini-pro''] \<lparr>calls = [], env = ()\<rparr>)"
  using init_depends_on_model_only
    [of "[''model'' \<mapsto> PyStr ''gemini/gemini-pro'', ''api_base'' \<mapsto> PyStr ''http://localhost'']"
        "[''model'' \<mapsto> PyStr ''gemini/gemini-pro'']"
        "\<lparr>calls = [], env = ()\<rparr>" "\<lparr>calls = [], env = ()\<rparr>"]
  by simp

section \<open>Generation\<close>

text \<open>
  Claim C4. When \<open>params\<close> has a \<open>"messages"\<close> entry, \<open>create\<close> calls the provider with
  the client's bound model and exactly that entry, and returns what the provider
  returned: the call log grows by the one pair (model, messages).
\<close>

theorem create_calls_provider:
  assumes "params ''messages'' = Some messages"
  shows "fst (create p self params w) = fst (p (model self) messages (env w))
       \<and> calls (snd (create p self params w)) = calls w @ [(model self, messages)]
       \<and> env (snd (create p self params w)) = snd (p (model self) messages (env w))"
  using assms by (simp add: create_def completion_def)

text \<open>A provider that echoes its two arguments, called through a constructed client.\<close>

theorem create_calls_provider_witness:
  "create (\<lambda>mdl msgs n. (Inr (PyTuple [mdl, msgs]), Suc n))
      (fst (init [''model'' \<mapsto> PyStr ''gemini/gemini-1.5''] \<lparr>calls = [], env = 0::nat\<rparr>))
      [''messages'' \<mapsto> PyList [PyDict [(PyStr ''role'', PyStr ''user''),
                                          (PyStr ''content'', PyStr ''ping'')]]]
      \<lparr>calls = [], env = 0::nat\<rparr>
   = (Inr (PyTuple [PyStr ''gemini/gemini-1.5'',
                    PyList [PyDict [(PyStr ''role'', PyStr ''user''),
                                    (PyStr ''content'', PyStr ''ping'')]]]),
      \<lparr>calls = [(PyStr ''gemini/gemini-1.5'',
                 PyList [PyDict [(PyStr ''role'', PyStr ''user''),
                                 (PyStr ''content'', PyStr ''ping'')]])],
       env = Suc 0\<rparr>)"
  using create_calls_provider
    [of "[''messages'' \<mapsto> PyList [PyDict [(PyStr ''role'', PyStr ''user''),
                                          (PyStr ''content'', PyStr ''ping'')]]]"
        "PyList [PyDict [(PyStr ''role'', PyStr ''user''), (PyStr ''content'', PyStr ''ping'')]]"
        "\<lambda>mdl msgs n. (Inr (PyTuple [mdl, msgs]), Suc n)"
        "fst (init [''model'' \<mapsto> PyStr ''gemini/gemini-1.5''] \<lparr>calls = [], env = 0::nat\<rparr>)"
        "\<lparr>calls = [], env = 0::nat\<rparr>"]
  by (simp add: init_def dict_get_def prod_eq_iff)

text \<open>
  Claim C8 says that every invocation of \<open>create\<close> makes exactly one provider call.
  An invocation whose \<open>params\<close> has no \<open>"messages"\<close> entry raises while the arguments
  are evaluated and makes none.
\<close>

theorem create_missing_messages_counterexample:
  "[''n'' \<mapsto> PyInt 1] ''messages'' = None
   \<and> calls (snd (create (\<lambda>mdl msgs s. (Inr PyNone, s))
        \<lparr>model = PyStr ''gemini/gemini-pro''\<rparr> [''n'' \<mapsto> PyInt 1] \<lparr>calls = [], env = ()\<rparr>)) = []"
  by (simp add: create_def)

text \<open>
  Claim C8, as the code has it. Every invocation of \<open>create\<close> makes at most one
  provider call; with a \<open>"messages"\<close> entry it makes exactly one, and when that call
  raises, \<open>create\<close> raises the same error without calling the provider again.
\<close>

theorem create_no_retry:
  "(\<exists>cs. calls (snd (create p self params w)) = calls w @ cs \<and> length cs \<le> 1)
   \<and> (\<forall>messages. params ''messages'' = Some messages \<longrightarrow>
         calls (snd (create p self params w)) = calls w @ [(model self, messages)]
         \<and> (\<forall>e. fst (p (model self) messages (env w)) = Inl e
                \<longrightarrow> fst (create p self params w) = Inl e))"
  by (cases "params ''messages''") (simp_all add: create_def completion_def)

text \<open>A provider that is unreachable: one call is logged and its error is the result.\<close>

theorem create_no_retry_witness:
  "fst (create (\<lambda>mdl msgs n. (Inl (ProviderError ''unreachable''), Suc n))
          \<lparr>model = PyStr ''gemini/gemini-pro''\<rparr> [''messages'' \<mapsto> PyList []]
          \<lparr>calls = [], env = 0::nat\<rparr>)
     = Inl (ProviderError ''unreachable'')
   \<and> calls (snd (create (\<lambda>mdl msgs n. (Inl (ProviderError ''unreachable''), Suc n))
          \<lparr>model = PyStr ''gemini/gemini-pro''\<rparr> [''messages'' \<mapsto> PyList []]
          \<lparr>calls = [], env = 0::nat\<rparr>))
     = [(PyStr ''gemini/gemini-pro'', PyList [])]"
  using create_no_retry
    [of "\<lambda>mdl msgs n. (Inl (ProviderError ''unreachable''), Suc n)"
        "\<lparr>model = PyStr ''gemini/gemini-pro''\<rparr>" "[''messages'' \<mapsto> PyList []]"
        "\<lparr>calls = [], env = 0::nat\<rparr>"]
  by simp

text \<open>
  Claim C10. When \<open>params\<close> has no \<open>"messages"\<close> entry, \<open>create\<close> raises KeyError and
  the world is unchanged: the lookup fails before any provider call is made.
\<close>

theorem create_requires_messages:
  assumes "params ''messages'' = None"
  shows "create p self params w = (Inl KeyError, w)"
  using assms by (simp add: create_def)

text \<open>A misspelt key, \<open>"message"\<close>, on a client constructed from an empty configuration.\<close>

theorem create_requires_messages_witness:
  "create (\<lambda>mdl msgs n. (Inr PyNone, Suc n))
      (fst (init Map.empty \<lparr>calls = [], env = 0::nat\<rparr>))
      [''message'' \<mapsto> PyList []] \<lparr>calls = [], env = 0::nat\<rparr>
   = (Inl KeyError, \<lparr>calls = [], env = 0::nat\<rparr>)"
  using create_requires_messages
    [of "[''message'' \<mapsto> PyList []]" "\<lambda>mdl msgs n. (Inr PyNone, Suc n)"
        "fst (init Map.empty \<lparr>calls = [], env = 0::nat\<rparr>)" "\<lparr>calls = [], env = 0::nat\<rparr>"]
  by simp

section \<open>Cost\<close>

text \<open>
  Claim C7. \<open>cost\<close> returns 0 for every client and every response, well-formed or not:
  it never raises, and the number it returns is not negative.
\<close>

theorem cost_zero:
  "cost self response = Inr 0 \<and> (\<exists>n. cost self response = Inr n \<and> 0 \<le> n)"
  by (simp add: cost_def)

end
